theory Spec2Isabelle
  imports Main "HOL-Library.Sublist"
begin

section \<open>The message-send hook: data model\<close>

text \<open>
  The development follows \<open>useSendMessage\<close>: the reconciler \<open>updateAssistantTurn\<close>,
  the send routine \<open>onSend\<close> and the stop handler \<open>onStop\<close>. React state and the two
  refs of the hook are the fields of one record that every operation takes and returns.
  A JavaScript string is a list of code units; the model keeps the code units below 256.
  An optional boolean parameter (\<open>isError?: boolean\<close>) is a \<open>bool option\<close>, \<open>None\<close> being
  \<open>undefined\<close>.
\<close>

datatype role = User | Assistant

datatype turn_status = Pending | Streaming | Complete | Error | Cancelled

text \<open>
  Modelled from the spec: the type \<open>MessageTurn\<close> is imported from \<open>ChatHistory\<close>, which
  is not among the sources. The record has the fields the hook reads and writes; the
  status values are those of the data model (the hook itself writes \<open>streaming\<close>,
  \<open>complete\<close>, \<open>error\<close> and \<open>cancelled\<close>).
\<close>

record MessageTurn =
  role :: role
  rawContent :: string
  status :: turn_status
  timestamp :: nat
  webDisplayContent :: "string option"

text \<open>
  Modelled from the spec: \<open>ChatStatus\<close> and \<open>ChatMode\<close> come from \<open>types/config\<close>, which
  is not among the sources; the constructors are the literals the hook uses.
\<close>

datatype ChatStatus = Idle | Done | Searching | Reading | Thinking

datatype ChatMode = Web | Page | Chat

text \<open>
  \<open>completionGuard\<close> and \<open>abortControllerRef\<close> are the two refs. An \<open>AbortController\<close> is
  an object with identity: it is a number here, \<open>controllers\<close> counts the objects created
  so far and \<open>abortedSignals\<close> holds those whose \<open>abort()\<close> has been called.
\<close>

record hook_state =
  completionGuard :: "nat option"
  abortControllerRef :: "nat option"
  controllers :: nat
  abortedSignals :: "nat set"
  turns :: "MessageTurn list"
  message :: string
  webContent :: string
  pageContent :: string
  loading :: bool
  chatStatus :: ChatStatus

section \<open>String helpers of the host language\<close>

definition truthy :: "bool option \<Rightarrow> bool" where
  "truthy b = (b = Some True)"

text \<open>\<open>a || b\<close> on strings: the empty string is falsy.\<close>

definition orElse :: "string \<Rightarrow> string \<Rightarrow> string" where
  "orElse a b = (if a = [] then b else a)"

text \<open>\<open>String.prototype.includes\<close>.\<close>

fun includesStr :: "string \<Rightarrow> string \<Rightarrow> bool" where
  "includesStr [] x = (x = [])"
| "includesStr (c # cs) x = (prefix x (c # cs) \<or> includesStr cs x)"

section \<open>The reconciler\<close>

text \<open>
  The function passed to \<open>setTurns\<close> inside \<open>updateAssistantTurn\<close>; \<open>now\<close> is what
  \<open>Date.now()\<close> returns at the call.
\<close>

definition turnUpdater ::
  "nat \<Rightarrow> string \<Rightarrow> bool \<Rightarrow> bool option \<Rightarrow> bool option \<Rightarrow> MessageTurn list \<Rightarrow> MessageTurn list"
where
  "turnUpdater now update isFinished isError isCancelled prevTurns =
     (if prevTurns = [] \<or> role (last prevTurns) \<noteq> Assistant then
        (if truthy isError then
           prevTurns @
             [\<lparr>role = Assistant,
               rawContent = ''Error: '' @ orElse update ''Unknown operation error'',
               status = Error, timestamp = now, webDisplayContent = None\<rparr>]
         else prevTurns)
      else
        (let lastTurn = last prevTurns;
             updatedStatus =
               (if isError = Some True then Error
                else if isCancelled = Some True then Cancelled
                else if isFinished then Complete else Streaming);
             finalContentForTurn =
               (if truthy isCancelled then
                  (let existingContent = orElse (rawContent lastTurn) ''''
                   in existingContent @ (if existingContent \<noteq> [] then '' '' else '''') @ update)
                else if truthy isError then
                  ''Error: '' @ orElse update ''Unknown stream/handler error''
                else update)
         in butlast prevTurns @
              [lastTurn\<lparr>rawContent := finalContentForTurn, status := updatedStatus,
                         timestamp := now\<rparr>]))"

text \<open>The test of the first early return: a non-final update whose token is not the active one.\<close>

definition guardMismatch :: "nat option \<Rightarrow> bool \<Rightarrow> bool option \<Rightarrow> bool option \<Rightarrow> hook_state \<Rightarrow> bool" where
  "guardMismatch callId isFinished isError isCancelled s =
     (completionGuard s \<noteq> callId \<and> \<not> isFinished \<and> \<not> truthy isError \<and> \<not> truthy isCancelled)"

text \<open>The test of the second early return: a signal that arrives after the operation was finalized.\<close>

definition alreadyFinalized ::
  "nat option \<Rightarrow> string \<Rightarrow> bool \<Rightarrow> bool option \<Rightarrow> bool option \<Rightarrow> hook_state \<Rightarrow> bool"
where
  "alreadyFinalized callId update isFinished isError isCancelled s =
     (completionGuard s = None \<and> callId \<noteq> None \<and>
      ((update = [] \<and> isFinished \<and> \<not> truthy isError \<and> \<not> truthy isCancelled) \<or>
       (truthy isError \<and>
          (includesStr update ''Operation cancelled by user'' \<or>
           includesStr update ''Streaming operation cancelled''))))"

definition isTerminal :: "bool \<Rightarrow> bool option \<Rightarrow> bool option \<Rightarrow> bool" where
  "isTerminal isFinished isError isCancelled =
     (isFinished \<or> isError = Some True \<or> isCancelled = Some True)"

definition updateAssistantTurn ::
  "nat \<Rightarrow> nat option \<Rightarrow> string \<Rightarrow> bool \<Rightarrow> bool option \<Rightarrow> bool option \<Rightarrow> hook_state \<Rightarrow> hook_state"
where
  "updateAssistantTurn now callId update isFinished isError isCancelled s =
     (if guardMismatch callId isFinished isError isCancelled s then s
      else if alreadyFinalized callId update isFinished isError isCancelled s then
        s\<lparr>loading := False, chatStatus := Idle\<rparr>
      else
        (let s1 = s\<lparr>turns := turnUpdater now update isFinished isError isCancelled (turns s)\<rparr>
         in if isTerminal isFinished isError isCancelled then
              (let s2 = s1\<lparr>loading := False,
                           chatStatus :=
                             (if truthy isError then Idle
                              else if truthy isCancelled then Idle else Done)\<rparr>
               in if completionGuard s2 = callId then
                    s2\<lparr>completionGuard := None, abortControllerRef := None\<rparr>
                  else s2)
            else s1))"

text \<open>The stop handler.\<close>

definition onStop :: "nat \<Rightarrow> hook_state \<Rightarrow> hook_state" where
  "onStop now s =
     (case completionGuard s of
        Some currentCallId \<Rightarrow>
          (let s1 = (case abortControllerRef s of
                       Some c \<Rightarrow> s\<lparr>abortedSignals := insert c (abortedSignals s),
                                     abortControllerRef := None\<rparr>
                     | None \<Rightarrow> s)
           in updateAssistantTurn now (Some currentCallId) ''[Operation cancelled by user]''
                True (Some False) (Some True) s1)
      | None \<Rightarrow> s\<lparr>loading := False, chatStatus := Idle\<rparr>)"

section \<open>Configuration and collaborators\<close>

text \<open>
  Modelled from the spec: \<open>Config\<close> and \<open>Model\<close> come from \<open>types/config\<close>, which is not
  among the sources. The records have the fields the hook reads; a field that may be
  \<open>undefined\<close> is an option.
\<close>

record Model =
  modelId :: string
  host :: "string option"

record Config =
  chatMode :: "ChatMode option"
  models :: "Model list option"
  selectedModel :: "string option"
  webLimit :: "int option"
  contextLimit :: "int option"
  personas :: "(string \<rightharpoonup> string) option"
  persona :: "string option"
  useNote :: "bool option"
  noteContent :: "string option"
  userName :: "string option"
  userProfile :: "string option"
  computeLevel :: "string option"
  customEndpoint :: "string option"
  ollamaUrl :: "string option"
  lmStudioUrl :: "string option"
  groqApiKey :: "string option"
  geminiApiKey :: "string option"
  openAiApiKey :: "string option"
  openRouterApiKey :: "string option"
  customApiKey :: "string option"

datatype api_role = ApiUser | ApiAssistant | ApiSystem

record ApiMessage =
  apiRole :: api_role
  content :: string

text \<open>
  What a \<open>catch\<close> clause receives. A rejection with an object or a primitive is described
  by its \<open>name\<close>, whether it is an \<open>Error\<close>, its \<open>message\<close> and \<open>String(e)\<close>. A rejection
  with \<open>null\<close> or \<open>undefined\<close> is kept apart: reading a property of it throws a \<open>TypeError\<close>.
\<close>

record thrown =
  errName :: string
  instanceofError :: bool
  errMessage :: string
  errString :: string

datatype rejection = RejNull | RejUndefined | RejValue thrown

datatype 'a outcome = Resolved 'a | Rejected rejection

text \<open>
  The lookup \<open>obj[key]\<close> on a plain object whose own properties are strings: an own
  property first, then the members that every object inherits from \<open>Object.prototype\<close>,
  else \<open>undefined\<close>. \<open>jsToString\<close> is \<open>String(v)\<close>, with the text the engine of the browser
  gives for an inherited member.
\<close>

datatype jsval = JsString string | JsUndefined | JsInherited string

definition objectPrototypeMembers :: "string list" where
  "objectPrototypeMembers =
     [''constructor'', ''__proto__'', ''hasOwnProperty'', ''isPrototypeOf'',
      ''propertyIsEnumerable'', ''toString'', ''toLocaleString'', ''valueOf'',
      ''__defineGetter__'', ''__defineSetter__'', ''__lookupGetter__'', ''__lookupSetter__'']"

definition lookupProp :: "(string \<rightharpoonup> string) \<Rightarrow> string \<Rightarrow> jsval" where
  "lookupProp obj key =
     (case obj key of
        Some v \<Rightarrow> JsString v
      | None \<Rightarrow> if key \<in> set objectPrototypeMembers then JsInherited key else JsUndefined)"

definition jsTruthy :: "jsval \<Rightarrow> bool" where
  "jsTruthy v = (case v of JsString s \<Rightarrow> s \<noteq> [] | JsUndefined \<Rightarrow> False | JsInherited k \<Rightarrow> True)"

definition jsToString :: "jsval \<Rightarrow> string" where
  "jsToString v =
     (case v of
        JsString s \<Rightarrow> s
      | JsUndefined \<Rightarrow> ''undefined''
      | JsInherited k \<Rightarrow>
          if k = ''__proto__'' then ''[object Object]''
          else ''function '' @ (if k = ''constructor'' then ''Object'' else k)
                 @ ''() { [native code] }'')"

text \<open>Whitespace of \<open>\s\<close> and of \<open>trim\<close>, among the code units below 256.\<close>

definition isSpace :: "char \<Rightarrow> bool" where
  "isSpace c = (c \<in> set [CHR 0x09, CHR 0x0A, CHR 0x0B, CHR 0x0C, CHR 0x0D, CHR 0x20, CHR 0xA0])"

definition trim :: "string \<Rightarrow> string" where
  "trim s = rev (dropWhile isSpace (rev (dropWhile isSpace s)))"

definition toLowerCase :: "string \<Rightarrow> string" where
  "toLowerCase s =
     map (\<lambda>c. let n = (of_char c :: nat)
              in if (65 \<le> n \<and> n \<le> 90) \<or> (192 \<le> n \<and> n \<le> 222 \<and> n \<noteq> 215)
                 then char_of (n + 32) else c) s"

text \<open>\<open>Array.prototype.join\<close>.\<close>

fun join :: "string \<Rightarrow> string list \<Rightarrow> string" where
  "join sep [] = []"
| "join sep [x] = x"
| "join sep (x # y # ys) = x @ sep @ join sep (y # ys)"

text \<open>\<open>s.substring(0, n)\<close>: a negative \<open>n\<close> counts as 0.\<close>

definition substring0 :: "string \<Rightarrow> int \<Rightarrow> string" where
  "substring0 s n = take (nat n) s"

text \<open>\<open>x || 1\<close> on an optional number.\<close>

definition numOrOne :: "int option \<Rightarrow> int" where
  "numOrOne x = (case x of None \<Rightarrow> 1 | Some n \<Rightarrow> if n = 0 then 1 else n)"

text \<open>A string that may be \<open>undefined\<close>, as a condition.\<close>

definition truthyStr :: "string option \<Rightarrow> bool" where
  "truthyStr x = (case x of None \<Rightarrow> False | Some s \<Rightarrow> s \<noteq> [])"

definition strOr :: "string option \<Rightarrow> string \<Rightarrow> string" where
  "strOr x d = (case x of None \<Rightarrow> d | Some s \<Rightarrow> orElse s d)"

definition dq :: string where
  "dq = [CHR 0x22]"

definition nl :: string where
  "nl = [CHR 0x0A]"

section \<open>The URL pattern\<close>

text \<open>
  \<open>message.match(/(https?:\/\/[^\s]+)/g)\<close>. \<open>urlAt\<close> is the match of the pattern at the
  head of the string; \<open>scanUrls k\<close> skips \<open>k\<close> code units (the rest of the last match) and
  then looks for the next one.
\<close>

definition urlAt :: "string \<Rightarrow> string option" where
  "urlAt s =
     (if prefix ''https://'' s then
        (let body = takeWhile (\<lambda>c. \<not> isSpace c) (drop 8 s)
         in if body = [] then None else Some (''https://'' @ body))
      else if prefix ''http://'' s then
        (let body = takeWhile (\<lambda>c. \<not> isSpace c) (drop 7 s)
         in if body = [] then None else Some (''http://'' @ body))
      else None)"

fun scanUrls :: "nat \<Rightarrow> string \<Rightarrow> string list" where
  "scanUrls k [] = []"
| "scanUrls (Suc k) (c # cs) = scanUrls k cs"
| "scanUrls 0 (c # cs) =
     (case urlAt (c # cs) of
        Some u \<Rightarrow> u # scanUrls (length u - 1) cs
      | None \<Rightarrow> scanUrls 0 cs)"

definition matchUrls :: "string \<Rightarrow> string list" where
  "matchUrls msg = scanUrls 0 msg"

section \<open>Context fragments and the system prompt\<close>

text \<open>The authorization header; the hook only hands it on to its collaborators.\<close>

definition getAuthHeader :: "Config \<Rightarrow> Model \<Rightarrow> string option" where
  "getAuthHeader config currentModel =
     (if host currentModel = Some ''groq'' \<and> truthyStr (groqApiKey config)
        then Some (''Bearer '' @ the (groqApiKey config))
      else if host currentModel = Some ''gemini'' \<and> truthyStr (geminiApiKey config)
        then Some (''Bearer '' @ the (geminiApiKey config))
      else if host currentModel = Some ''openai'' \<and> truthyStr (openAiApiKey config)
        then Some (''Bearer '' @ the (openAiApiKey config))
      else if host currentModel = Some ''openrouter'' \<and> truthyStr (openRouterApiKey config)
        then Some (''Bearer '' @ the (openRouterApiKey config))
      else if host currentModel = Some ''custom'' \<and> truthyStr (customApiKey config)
        then Some (''Bearer '' @ the (customApiKey config))
      else None)"

text \<open>The web search result as the model gets it.\<close>

definition webContentForLlm :: "Config \<Rightarrow> string \<Rightarrow> string" where
  "webContentForLlm config searchRes =
     (let webLimit' = 1000 * numOrOne (webLimit config);
          limitedWebResult = (if webLimit' \<noteq> 0 then substring0 searchRes webLimit' else searchRes)
      in if webLimit config = Some 128 then searchRes else limitedWebResult)"

text \<open>The page content as the model gets it.\<close>

definition pageContentForLlm :: "Config \<Rightarrow> string \<Rightarrow> string" where
  "pageContentForLlm config currentPageContent =
     (let charLimit = 1000 * numOrOne (contextLimit config);
          safeCurrentPageContent = currentPageContent;
          limitedContent =
            (if charLimit \<noteq> 0 \<and> safeCurrentPageContent \<noteq> []
             then substring0 safeCurrentPageContent charLimit else safeCurrentPageContent)
      in if contextLimit config = Some 128 then safeCurrentPageContent else limitedContent)"

text \<open>
  \<open>config?.personas?.[config?.persona] || ''\<close>, as the text that \<open>join\<close> makes of it when
  it is pushed: an inherited member of the \<open>personas\<close> object is truthy and is pushed too.
\<close>

definition personaOf :: "Config \<Rightarrow> string" where
  "personaOf config =
     (case personas config of
        None \<Rightarrow> ''''
      | Some ps \<Rightarrow>
          (let v = lookupProp ps (case persona config of None \<Rightarrow> ''undefined'' | Some k \<Rightarrow> k)
           in if jsTruthy v then jsToString v else ''''))"

definition pageContextString :: "Config \<Rightarrow> string \<Rightarrow> string" where
  "pageContextString config pageForLlm =
     (if chatMode config = Some Page \<and> pageForLlm \<noteq> []
      then ''Use the following page content for context: '' @ pageForLlm else '''')"

definition webContextString :: "Config \<Rightarrow> string \<Rightarrow> string" where
  "webContextString config webForLlm =
     (if chatMode config = Some Web \<and> webForLlm \<noteq> []
      then ''Refer to this web search summary: '' @ webForLlm else '''')"

definition noteContextString :: "Config \<Rightarrow> string" where
  "noteContextString config =
     (if truthy (useNote config) \<and> truthyStr (noteContent config)
      then ''Refer to this note for context: '' @ the (noteContent config) else '''')"

definition userContextStatement :: "Config \<Rightarrow> string" where
  "userContextStatement config =
     (let userName' = map_option trim (userName config);
          userProfile' = map_option trim (userProfile config)
      in if truthyStr userName' \<and> toLowerCase (the userName') \<noteq> ''user'' \<and> userName' \<noteq> Some ''''
         then ''You are interacting with a user named '' @ dq @ the userName' @ dq @ ''.'' @
              (if truthyStr userProfile'
               then '' Their provided profile information is: '' @ dq @ the userProfile' @ dq @ ''.''
               else '''')
         else if truthyStr userProfile'
         then ''You are interacting with a user. Their provided profile information is: '' @ dq @
              the userProfile' @ dq @ ''.''
         else '''')"

text \<open>The text pushed for the scraped pages.\<close>

definition scrapedContextString :: "string \<Rightarrow> string" where
  "scrapedContextString scrapedContent =
     ''Use the following scraped content from URLs in the user'' @ [CHR 0x27] @ ''s message:''
       @ nl @ scrapedContent"

text \<open>The six pushes onto \<open>systemPromptParts\<close>, in the order of the source.\<close>

definition systemPromptParts :: "Config \<Rightarrow> string \<Rightarrow> string \<Rightarrow> string \<Rightarrow> string list" where
  "systemPromptParts config pageForLlm webForLlm scrapedContent =
     (let parts0 = [];
          parts1 = (if personaOf config \<noteq> [] then parts0 @ [personaOf config] else parts0);
          parts2 = (if userContextStatement config \<noteq> []
                    then parts1 @ [userContextStatement config] else parts1);
          parts3 = (if noteContextString config \<noteq> []
                    then parts2 @ [noteContextString config] else parts2);
          parts4 = (if pageContextString config pageForLlm \<noteq> []
                    then parts3 @ [pageContextString config pageForLlm] else parts3);
          parts5 = (if webContextString config webForLlm \<noteq> []
                    then parts4 @ [webContextString config webForLlm] else parts4);
          parts6 = (if scrapedContent \<noteq> []
                    then parts5 @ [scrapedContextString scrapedContent] else parts5)
      in parts6)"

definition systemContent :: "Config \<Rightarrow> string \<Rightarrow> string \<Rightarrow> string \<Rightarrow> string" where
  "systemContent config pageForLlm webForLlm scrapedContent =
     trim (join (nl @ nl) (systemPromptParts config pageForLlm webForLlm scrapedContent))"

section \<open>The send routine\<close>

text \<open>
  \<open>onSend\<close> is an \<open>async\<close> function: it runs to its next \<open>await\<close>, is suspended while a
  collaborator works and other handlers of the page may run, and is resumed with the
  collaborator's result. The record \<open>env\<close> holds what one run gets from outside: the
  result of every collaborator, what \<open>Date.now()\<close> returns, and \<open>during\<close>, what the other
  handlers do to the state while the run is suspended at a stage. A run returns the
  state together with its trace. The trace is not in the source; it records, in order,
  every \<open>await\<close> with the Turn Store as it is when the run is suspended there, the request
  handed to the streaming transport, and an exception that leaves \<open>onSend\<close>.
\<close>

datatype stage =
  ScrapeUrls | OptimizeQuery | WebSearch | TabsQuery | PdfExtract | StorageGet
  | HighCompute | MediumCompute | FetchStream

datatype event =
  Awaited stage "MessageTurn list" | Requested string "ApiMessage list" | Threw string

record tab =
  tabUrl :: "string option"
  tabMimeType :: "string option"

text \<open>One call of the callback handed to a strategy: \<open>(text, isFinished?, isError?)\<close>.\<close>

record callback =
  cbNow :: nat
  cbText :: string
  cbFinished :: "bool option"
  cbError :: "bool option"

text \<open>What the hook closes over.\<close>

record hook_params =
  isLoading :: bool
  currentTurns :: "MessageTurn list"
  hookConfig :: "Config option"

record env =
  scrapeUrlContent :: "string \<Rightarrow> string outcome"
  processQueryWithAI :: "string \<Rightarrow> string outcome"
  webSearch :: "string \<Rightarrow> string outcome"
  tabsQuery :: "tab option outcome"
  extractTextFromPdf :: "string \<Rightarrow> string outcome"
  storageGetItem :: "string option outcome"
  strategyCalls :: "callback list"
  strategyResult :: "unit outcome"
  normalizeApiEndpoint :: "string option \<Rightarrow> string"
  nowUserTurn :: nat
  nowPlaceholder :: nat
  nowUpdate :: nat
  during :: "stage \<Rightarrow> hook_state \<Rightarrow> hook_state"

type_synonym run = "hook_state \<times> event list"

definition onState :: "(hook_state \<Rightarrow> hook_state) \<Rightarrow> run \<Rightarrow> run" where
  "onState f r = (f (fst r), snd r)"

definition emit :: "event \<Rightarrow> run \<Rightarrow> run" where
  "emit e r = (fst r, snd r @ [e])"

definition suspend :: "env \<Rightarrow> stage \<Rightarrow> run \<Rightarrow> run" where
  "suspend env st r = (during env st (fst r), snd r @ [Awaited st (turns (fst r))])"

text \<open>\<open>Boolean(x)\<close> on an optional boolean.\<close>

definition Boolean :: "bool option \<Rightarrow> bool" where
  "Boolean x = (x = Some True)"

text \<open>\<open>e instanceof Error ? e.message : d\<close>, and \<open>String(e)\<close>.\<close>

definition messageOr :: "rejection \<Rightarrow> string \<Rightarrow> string" where
  "messageOr e d =
     (case e of RejValue v \<Rightarrow> if instanceofError v then errMessage v else d | _ \<Rightarrow> d)"

definition stringOf :: "rejection \<Rightarrow> string" where
  "stringOf e =
     (case e of RejNull \<Rightarrow> ''null'' | RejUndefined \<Rightarrow> ''undefined'' | RejValue v \<Rightarrow> errString v)"

text \<open>\<open>Promise.all\<close>: the results in order, or a rejection when one of them rejects.\<close>

fun promiseAll :: "'a outcome list \<Rightarrow> 'a list outcome" where
  "promiseAll [] = Resolved []"
| "promiseAll (Rejected e # rs) = Rejected e"
| "promiseAll (Resolved x # rs) =
     (case promiseAll rs of Resolved xs \<Rightarrow> Resolved (x # xs) | Rejected e \<Rightarrow> Rejected e)"

text \<open>The own properties of the object literal \<open>urlMap\<close>.\<close>

definition urlMap :: "env \<Rightarrow> Config \<Rightarrow> (string \<rightharpoonup> string)" where
  "urlMap env config =
     [''groq'' \<mapsto> ''https://api.groq.com/openai/v1/chat/completions'',
      ''ollama'' \<mapsto> strOr (ollamaUrl config) '''' @ ''/api/chat'',
      ''gemini'' \<mapsto> ''https://generativelanguage.googleapis.com/v1beta/openai/chat/completions'',
      ''lmStudio'' \<mapsto> strOr (lmStudioUrl config) '''' @ ''/v1/chat/completions'',
      ''openai'' \<mapsto> ''https://api.openai.com/v1/chat/completions'',
      ''openrouter'' \<mapsto> ''https://openrouter.ai/api/v1/chat/completions'',
      ''custom'' \<mapsto>
         (if truthyStr (customEndpoint config)
          then normalizeApiEndpoint env (customEndpoint config) @ ''/v1/chat/completions''
          else '''')]"

text \<open>The callback of the two compute strategies, and the one of the streaming transport.\<close>

definition computeCallback :: "nat \<Rightarrow> callback \<Rightarrow> hook_state \<Rightarrow> hook_state" where
  "computeCallback callId cb =
     updateAssistantTurn (cbNow cb) (Some callId) (cbText cb) (Boolean (cbFinished cb)) None None"

definition streamCallback :: "nat \<Rightarrow> callback \<Rightarrow> hook_state \<Rightarrow> hook_state" where
  "streamCallback callId cb =
     updateAssistantTurn (cbNow cb) (Some callId) (cbText cb) (Boolean (cbFinished cb))
       (Some (Boolean (cbError cb))) None"

text \<open>The \<open>catch\<close> of the dispatch.\<close>

definition onSend_catch ::
  "hook_params \<Rightarrow> env \<Rightarrow> nat \<Rightarrow> nat \<Rightarrow> rejection \<Rightarrow> hook_state \<Rightarrow> hook_state"
where
  "onSend_catch h env callId controller e s =
     (if controller \<in> abortedSignals s then
        (let s1 = (if isLoading h then s\<lparr>loading := False\<rparr> else s);
             s2 = s1\<lparr>chatStatus := Idle\<rparr>;
             s3 = (if completionGuard s2 = Some callId then s2\<lparr>completionGuard := None\<rparr> else s2)
         in if abortControllerRef s3 = Some controller then s3\<lparr>abortControllerRef := None\<rparr> else s3)
      else updateAssistantTurn (nowUpdate env) (Some callId) (messageOr e (stringOf e))
             True (Some True) None s)"

text \<open>A strategy at work: the run is suspended, the strategy calls back, then resolves or rejects.\<close>

definition awaitStrategy ::
  "hook_params \<Rightarrow> env \<Rightarrow> nat \<Rightarrow> nat \<Rightarrow> stage \<Rightarrow> (nat \<Rightarrow> callback \<Rightarrow> hook_state \<Rightarrow> hook_state) \<Rightarrow> run \<Rightarrow> run"
where
  "awaitStrategy h env callId controller st cbk r =
     (let r1 = suspend env st r;
          r2 = onState (\<lambda>s. fold (cbk callId) (strategyCalls env) s) r1
      in case strategyResult env of
           Resolved u \<Rightarrow> r2
         | Rejected e \<Rightarrow> onState (onSend_catch h env callId controller e) r2)"

text \<open>The messages of the request: the system prompt, when it is not blank, and the history.\<close>

definition messagesForApiPayload :: "string \<Rightarrow> ApiMessage list \<Rightarrow> ApiMessage list" where
  "messagesForApiPayload sysContent messageForApi =
     (if trim sysContent \<noteq> [] then [\<lparr>apiRole = ApiSystem, content = sysContent\<rparr>] else [])
       @ messageForApi"

text \<open>Step 4 of the source: execution by compute level.\<close>

definition onSend_dispatch ::
  "hook_params \<Rightarrow> env \<Rightarrow> nat \<Rightarrow> Config \<Rightarrow> Model \<Rightarrow> nat \<Rightarrow> string \<Rightarrow> ApiMessage list \<Rightarrow> run \<Rightarrow> run"
where
  "onSend_dispatch h env callId config currentModel controller sysContent messageForApi r =
     (let r1 = onState (\<lambda>s. s\<lparr>chatStatus := Thinking\<rparr>) r
      in if computeLevel config = Some ''high'' then
           awaitStrategy h env callId controller HighCompute computeCallback r1
         else if computeLevel config = Some ''medium'' then
           awaitStrategy h env callId controller MediumCompute computeCallback r1
         else
           (let host' = strOr (host currentModel) '''';
                url = lookupProp (urlMap env config) host'
            in if \<not> jsTruthy url then
                 onState (updateAssistantTurn (nowUpdate env) (Some callId)
                   (''Configuration error: Could not determine API URL for host '' @ [CHR 0x27] @
                    (case host currentModel of None \<Rightarrow> ''undefined'' | Some x \<Rightarrow> x) @ [CHR 0x27] @ ''.'')
                   True (Some True) None) r1
               else
                 awaitStrategy h env callId controller FetchStream streamCallback
                   (emit (Requested (jsToString url)
                            (messagesForApiPayload sysContent messageForApi)) r1)))"

text \<open>
  Page content acquisition. \<open>currentPageContentOf\<close> is the text the stage ends with,
  \<open>pageAwait\<close> the collaborator it awaits after the tab query, if any.
\<close>

definition isPdfTab :: "tab \<Rightarrow> bool" where
  "isPdfTab t =
     (suffix ''.pdf'' (toLowerCase (the (tabUrl t))) \<or> tabMimeType t = Some ''application/pdf'')"

definition readableTab :: "tab \<Rightarrow> bool" where
  "readableTab t = (truthyStr (tabUrl t) \<and> \<not> prefix ''chrome://'' (the (tabUrl t)))"

definition currentPageContentOf :: "env \<Rightarrow> string" where
  "currentPageContentOf env =
     (case tabsQuery env of
        Rejected e \<Rightarrow> ''Error accessing page content: '' @ messageOr e ''Unknown error''
      | Resolved None \<Rightarrow> ''''
      | Resolved (Some t) \<Rightarrow>
          if readableTab t then
            (if isPdfTab t then
               (case extractTextFromPdf env (the (tabUrl t)) of
                  Resolved txt \<Rightarrow> txt
                | Rejected e \<Rightarrow>
                    ''Error extracting PDF content: '' @ messageOr e ''Unknown PDF error''
                      @ ''. Falling back.'')
             else
               (case storageGetItem env of
                  Resolved v \<Rightarrow> strOr v ''''
                | Rejected e \<Rightarrow> ''Error accessing page content: '' @ messageOr e ''Unknown error''))
          else '''')"

definition pageAwait :: "env \<Rightarrow> stage option" where
  "pageAwait env =
     (case tabsQuery env of
        Resolved (Some t) \<Rightarrow>
          if readableTab t then Some (if isPdfTab t then PdfExtract else StorageGet) else None
      | _ \<Rightarrow> None)"

definition onSend_page :: "env \<Rightarrow> Config \<Rightarrow> run \<Rightarrow> string \<times> run" where
  "onSend_page env config r =
     (if chatMode config = Some Page then
        (let r1 = onState (\<lambda>s. s\<lparr>chatStatus := Reading\<rparr>) r;
             r2 = suspend env TabsQuery r1;
             r3 = (case pageAwait env of None \<Rightarrow> r2 | Some st \<Rightarrow> suspend env st r2);
             pageForLlm = pageContentForLlm config (currentPageContentOf env)
         in (pageForLlm,
             onState (\<lambda>s. s\<lparr>pageContent := orElse pageForLlm '''', chatStatus := Thinking\<rparr>) r3))
      else ('''', onState (\<lambda>s. s\<lparr>pageContent := ''''\<rparr>) r))"

definition apiRoleOf :: "role \<Rightarrow> api_role" where
  "apiRoleOf x = (case x of User \<Rightarrow> ApiUser | Assistant \<Rightarrow> ApiAssistant)"

text \<open>\<open>messageForApi\<close>: the turns the hook closes over, and the message.\<close>

definition messageForApi :: "hook_params \<Rightarrow> string \<Rightarrow> ApiMessage list" where
  "messageForApi h msg =
     map (\<lambda>turn. \<lparr>apiRole = apiRoleOf (role turn), content = orElse (rawContent turn) ''''\<rparr>)
       (currentTurns h) @ [\<lparr>apiRole = ApiUser, content = msg\<rparr>]"

text \<open>From the limit on the search result to the dispatch.\<close>

definition onSend_prompt ::
  "hook_params \<Rightarrow> env \<Rightarrow> nat \<Rightarrow> Config \<Rightarrow> Model \<Rightarrow> nat \<Rightarrow> string \<Rightarrow> string \<Rightarrow> string \<Rightarrow> run \<Rightarrow> run"
where
  "onSend_prompt h env callId config currentModel controller msg searchRes scrapedContent r =
     (let webForLlm = webContentForLlm config searchRes;
          (pageForLlm, r1) = onSend_page env config r;
          sysContent = systemContent config pageForLlm webForLlm scrapedContent
      in onSend_dispatch h env callId config currentModel controller sysContent
           (messageForApi h msg) r1)"

text \<open>
  The \<open>setTurns\<close> that attaches the query display: only the last element of the list can
  be the object \<open>prevTurns[prevTurns.length - 1]\<close>.
\<close>

definition attachWebDisplay :: "string \<Rightarrow> MessageTurn list \<Rightarrow> MessageTurn list" where
  "attachWebDisplay processedQueryDisplay prevTurns =
     (if prevTurns = [] then []
      else (let t = last prevTurns
            in butlast prevTurns @
                 [if role t = Assistant \<and> status t \<noteq> Complete \<and> status t \<noteq> Error \<and>
                     status t \<noteq> Cancelled
                  then t\<lparr>webDisplayContent := Some processedQueryDisplay\<rparr> else t]))"

text \<open>
  The web search. In the \<open>catch\<close>, \<open>searchError.name\<close> is read first: for a rejection with
  \<open>null\<close> or \<open>undefined\<close> this throws, and the exception leaves \<open>onSend\<close>.
\<close>

definition onSend_search ::
  "hook_params \<Rightarrow> env \<Rightarrow> nat \<Rightarrow> Config \<Rightarrow> Model \<Rightarrow> nat \<Rightarrow> string \<Rightarrow> string \<Rightarrow> string \<Rightarrow> string \<Rightarrow> run \<Rightarrow> run"
where
  "onSend_search h env callId config currentModel controller msg queryForProcessing
       processedQueryDisplay scrapedContent r =
     (if chatMode config = Some Web then
        (let r1 = onState (\<lambda>s. s\<lparr>chatStatus := Searching\<rparr>) r;
             r2 = suspend env WebSearch r1
         in case webSearch env queryForProcessing of
              Resolved searchRes \<Rightarrow>
                (let r3 = onState (\<lambda>s. s\<lparr>chatStatus := Thinking\<rparr>) r2
                 in if controller \<in> abortedSignals (fst r3) then r3
                    else
                      (let r4 = (if processedQueryDisplay \<noteq> [] then
                                   onState (\<lambda>s. s\<lparr>turns :=
                                     attachWebDisplay processedQueryDisplay (turns s)\<rparr>) r3
                                 else r3)
                       in onSend_prompt h env callId config currentModel controller msg searchRes
                            scrapedContent r4))
            | Rejected RejNull \<Rightarrow> emit (Threw ''TypeError'') r2
            | Rejected RejUndefined \<Rightarrow> emit (Threw ''TypeError'') r2
            | Rejected (RejValue searchError) \<Rightarrow>
                if errName searchError = ''AbortError'' \<or> controller \<in> abortedSignals (fst r2)
                then r2
                else
                  (let errorMessage =
                         ''Web Search Failed: '' @
                           (if instanceofError searchError then errMessage searchError
                            else errString searchError)
                   in onState (\<lambda>s. updateAssistantTurn (nowUpdate env) (Some callId) errorMessage
                                      True (Some True) (Some False) (s\<lparr>chatStatus := Idle\<rparr>)) r2))
      else onSend_prompt h env callId config currentModel controller msg '''' scrapedContent r)"

text \<open>
  The query optimization: the query that is searched for and the display text, from the
  result of the optimizer.
\<close>

definition optimizedQueryOf :: "env \<Rightarrow> string \<Rightarrow> string \<times> string" where
  "optimizedQueryOf env msg =
     (case processQueryWithAI env msg of
        Resolved optimizedQuery \<Rightarrow>
          if optimizedQuery \<noteq> [] \<and> trim optimizedQuery \<noteq> [] \<and> optimizedQuery \<noteq> msg then
            (optimizedQuery,
             ''**Optimized query:** '' @ dq @ ''*'' @ optimizedQuery @ ''*'' @ dq @ nl @ nl)
          else (msg, ''**Original query:** '' @ dq @ msg @ dq @ nl @ nl)
      | Rejected optError \<Rightarrow> (msg, ''**Fallback query:** '' @ dq @ msg @ dq @ nl @ nl))"

text \<open>The model lookup and the query optimization.\<close>

definition currentModelOf :: "Config \<Rightarrow> Model option" where
  "currentModelOf config =
     find (\<lambda>m. Some (modelId m) = selectedModel config)
       (case models config of None \<Rightarrow> [] | Some ms \<Rightarrow> ms)"

definition onSend_optimize ::
  "hook_params \<Rightarrow> env \<Rightarrow> nat \<Rightarrow> Config \<Rightarrow> nat \<Rightarrow> string \<Rightarrow> string \<Rightarrow> run \<Rightarrow> run"
where
  "onSend_optimize h env callId config controller msg scrapedContent r =
     (case currentModelOf config of
        None \<Rightarrow>
          onState (updateAssistantTurn (nowUpdate env) (Some callId)
            ''Configuration error: No model selected.'' True (Some True) None) r
      | Some currentModel \<Rightarrow>
          if chatMode config = Some Web then
            (let r1 = onState (\<lambda>s. s\<lparr>chatStatus := Thinking\<rparr>) r;
                 r2 = suspend env OptimizeQuery r1;
                 (queryForProcessing, processedQueryDisplay) = optimizedQueryOf env msg
             in onSend_search h env callId config currentModel controller msg queryForProcessing
                  processedQueryDisplay scrapedContent r2)
          else
            onSend_search h env callId config currentModel controller msg msg '''' scrapedContent r)"

text \<open>URL detection and scraping: \<open>scrapedContentOf\<close> is the text the stage ends with.\<close>

definition scrapedContentOf :: "env \<Rightarrow> string \<Rightarrow> string" where
  "scrapedContentOf env msg =
     (let urls = matchUrls msg
      in if urls \<noteq> [] then
           (case promiseAll (map (scrapeUrlContent env) urls) of
              Resolved scrapedResults \<Rightarrow>
                join (nl @ nl)
                  (map (\<lambda>(u, c). ''Content from ['' @ u @ '']:'' @ nl @ c)
                     (zip urls scrapedResults))
            | Rejected e \<Rightarrow> ''[Error scraping one or more URLs]'')
         else '''')"

definition onSend_scrape :: "env \<Rightarrow> string \<Rightarrow> run \<Rightarrow> run" where
  "onSend_scrape env msg r =
     (if matchUrls msg \<noteq> [] then
        (let r1 = onState (\<lambda>s. s\<lparr>chatStatus := Searching\<rparr>) r;
             r2 = suspend env ScrapeUrls r1
         in onState (\<lambda>s. s\<lparr>chatStatus := Thinking\<rparr>) r2)
      else r)"

text \<open>The two \<open>setTurns\<close> that append the user turn and the assistant placeholder.\<close>

definition userTurn :: "env \<Rightarrow> string \<Rightarrow> MessageTurn" where
  "userTurn env msg =
     \<lparr>role = User, rawContent = msg, status = Complete, timestamp = nowUserTurn env,
      webDisplayContent = None\<rparr>"

definition assistantTurnPlaceholder :: "env \<Rightarrow> MessageTurn" where
  "assistantTurnPlaceholder env =
     \<lparr>role = Assistant, rawContent = '''', status = Streaming, timestamp = nowPlaceholder env + 1,
      webDisplayContent = None\<rparr>"

definition onSend_turns :: "env \<Rightarrow> string \<Rightarrow> run \<Rightarrow> run" where
  "onSend_turns env msg r =
     (let r1 = onState (\<lambda>s. s\<lparr>turns := turns s @ [userTurn env msg], message := ''''\<rparr>) r
      in onState (\<lambda>s. s\<lparr>turns := turns s @ [assistantTurnPlaceholder env]\<rparr>) r1)"

text \<open>The synchronous head of \<open>onSend\<close>, after the two bail-outs: abort of the previous
  operation, the new controller, the flags and the guard. The result is the controller and the state.\<close>

definition onSend_begin :: "nat \<Rightarrow> Config \<Rightarrow> hook_state \<Rightarrow> nat \<times> hook_state" where
  "onSend_begin callId config s =
     (let s1 = (if completionGuard s \<noteq> None then
                  (case abortControllerRef s of
                     Some c \<Rightarrow> s\<lparr>abortedSignals := insert c (abortedSignals s)\<rparr>
                   | None \<Rightarrow> s)
                else s);
          controller = controllers s1;
          s2 = s1\<lparr>controllers := Suc controller, abortControllerRef := Some controller\<rparr>;
          s3 = s2\<lparr>loading := True, webContent := '''', pageContent := ''''\<rparr>;
          currentChatMode = (case chatMode config of None \<Rightarrow> Chat | Some m \<Rightarrow> m);
          s4 = s3\<lparr>chatStatus :=
                    (if currentChatMode = Web then Searching
                     else if currentChatMode = Page then Reading else Thinking)\<rparr>
      in (controller, s4\<lparr>completionGuard := Some callId\<rparr>))"

definition onSend :: "hook_params \<Rightarrow> env \<Rightarrow> nat \<Rightarrow> string option \<Rightarrow> hook_state \<Rightarrow> run" where
  "onSend h env callId overridedMessage s =
     (let msg = strOr overridedMessage ''''
      in case hookConfig h of
           None \<Rightarrow> (s\<lparr>loading := False\<rparr>, [])
         | Some config \<Rightarrow>
             if msg = [] then (s, [])
             else
               (let (controller, s1) = onSend_begin callId config s;
                    r1 = onSend_scrape env msg (s1, []);
                    r2 = onSend_turns env msg r1
                in onSend_optimize h env callId config controller msg (scrapedContentOf env msg) r2))"
section \<open>Observations on a run\<close>

text \<open>
  The first \<open>await\<close> in a piece of a trace, with the Turn Store it was suspended with;
  \<open>firstAwaitSees ts es\<close> says that this first \<open>await\<close>, if there is one, is not the
  scraping and was suspended with the store \<open>ts\<close>.
\<close>

fun firstAwait :: "event list \<Rightarrow> (stage \<times> MessageTurn list) option" where
  "firstAwait [] = None"
| "firstAwait (Awaited st ts # es) = Some (st, ts)"
| "firstAwait (Requested url msgs # es) = firstAwait es"
| "firstAwait (Threw x # es) = firstAwait es"

definition firstAwaitSees :: "MessageTurn list \<Rightarrow> event list \<Rightarrow> bool" where
  "firstAwaitSees ts es =
     (case firstAwait es of None \<Rightarrow> True | Some (st, ts') \<Rightarrow> st \<noteq> ScrapeUrls \<and> ts' = ts)"

text \<open>
  The search result and the page fragment that a run carries to its prompt, as
  functions of the results of the collaborators: \<open>searchRes\<close> is the result of the
  search in web mode and stays empty otherwise, \<open>pageContentForLlm\<close> stays empty
  outside page mode.
\<close>

definition searchResOf :: "env \<Rightarrow> Config \<Rightarrow> string \<Rightarrow> string" where
  "searchResOf env config msg =
     (if chatMode config = Some Web then
        (case webSearch env (fst (optimizedQueryOf env msg)) of
           Resolved searchRes \<Rightarrow> searchRes
         | Rejected e \<Rightarrow> '''')
      else '''')"

definition pageFragmentOf :: "env \<Rightarrow> Config \<Rightarrow> string" where
  "pageFragmentOf env config =
     (if chatMode config = Some Page then pageContentForLlm config (currentPageContentOf env)
      else '''')"
section \<open>Concrete states, configurations and runs\<close>


definition exampleTurns :: "MessageTurn list" where
  "exampleTurns =
     [\<lparr>role = User, rawContent = ''hi'', status = Complete, timestamp = 1,
       webDisplayContent = None\<rparr>,
      \<lparr>role = Assistant, rawContent = ''partial'', status = Streaming, timestamp = 2,
       webDisplayContent = None\<rparr>]"

definition exampleState :: "nat option \<Rightarrow> hook_state" where
  "exampleState g =
     \<lparr>completionGuard = g, abortControllerRef = Some 0, controllers = 1, abortedSignals = {},
      turns = exampleTurns, message = '''', webContent = '''', pageContent = '''',
      loading = True, chatStatus = Thinking\<rparr>"

definition idleState :: hook_state where
  "idleState =
     \<lparr>completionGuard = None, abortControllerRef = None, controllers = 0, abortedSignals = {},
      turns = [], message = '''', webContent = '''', pageContent = '''',
      loading = False, chatStatus = Idle\<rparr>"

definition exampleConfig :: Config where
  "exampleConfig =
     \<lparr>chatMode = Some Chat,
      models = Some [\<lparr>modelId = ''m1'', host = Some ''ollama''\<rparr>],
      selectedModel = Some ''m1'', webLimit = Some 5, contextLimit = Some 5,
      personas = Some [''default'' \<mapsto> ''Be brief.''], persona = Some ''default'',
      useNote = Some False, noteContent = None, userName = None, userProfile = None,
      computeLevel = Some ''low'', customEndpoint = None,
      ollamaUrl = Some ''http://localhost:11434'', lmStudioUrl = None, groqApiKey = None,
      geminiApiKey = None, openAiApiKey = None, openRouterApiKey = None, customApiKey = None\<rparr>"

definition exampleError :: thrown where
  "exampleError =
     \<lparr>errName = ''Error'', instanceofError = True, errMessage = ''network down'',
      errString = ''Error: network down''\<rparr>"

definition exampleEnv :: env where
  "exampleEnv =
     \<lparr>scrapeUrlContent = (\<lambda>u. Resolved ''page text''),
      processQueryWithAI = (\<lambda>m. Resolved m),
      webSearch = (\<lambda>q. Rejected (RejValue exampleError)),
      tabsQuery = Resolved None,
      extractTextFromPdf = (\<lambda>u. Resolved ''''),
      storageGetItem = Resolved None,
      strategyCalls = [],
      strategyResult = Resolved (),
      normalizeApiEndpoint = (\<lambda>x. strOr x ''''),
      nowUserTurn = 10, nowPlaceholder = 10, nowUpdate = 20,
      during = (\<lambda>st s. s)\<rparr>"

definition exampleHook :: "Config \<Rightarrow> hook_params" where
  "exampleHook config = \<lparr>isLoading = False, currentTurns = [], hookConfig = Some config\<rparr>"

text \<open>
  Two overlapping sends. The first send (token 1) is suspended in its transport when the
  second (token 2) is issued; the second streams \<open>answer two\<close>. \<open>overlapState\<close> is the
  state at that moment, before the first send's transport calls back.
\<close>

definition secondSendEnv :: env where
  "secondSendEnv =
     exampleEnv\<lparr>strategyCalls :=
       [\<lparr>cbNow = 31, cbText = ''answer two'', cbFinished = Some False, cbError = Some False\<rparr>],
       nowUserTurn := 30, nowPlaceholder := 30\<rparr>"

definition firstSendEnv :: env where
  "firstSendEnv =
     exampleEnv\<lparr>during := (\<lambda>st s. if st = FetchStream
        then fst (onSend (exampleHook exampleConfig) secondSendEnv 2 (Some ''second'') s) else s)\<rparr>"

definition overlapState :: hook_state where
  "overlapState = fst (onSend (exampleHook exampleConfig) firstSendEnv 1 (Some ''first'') idleState)"

text \<open>A message with a URL, a configuration in web mode, and a persona that ends in a line break.\<close>

definition urlMessage :: string where
  "urlMessage = ''see http://a.b/c now''"

definition webConfig :: Config where
  "webConfig = exampleConfig\<lparr>chatMode := Some Web\<rparr>"

definition newlinePersonaConfig :: Config where
  "newlinePersonaConfig = exampleConfig\<lparr>personas := Some [''default'' \<mapsto> ''Be brief.'' @ nl]\<rparr>"

definition abortError :: thrown where
  "abortError =
     \<lparr>errName = ''AbortError'', instanceofError = True, errMessage = ''The user aborted a request.'',
      errString = ''AbortError: The user aborted a request.''\<rparr>"

text \<open>A run in which the user presses stop while the search is awaited, and the search rejects.\<close>

definition stoppedSearchEnv :: env where
  "stoppedSearchEnv =
     exampleEnv\<lparr>webSearch := (\<lambda>q. Rejected (RejValue abortError)),
                during := (\<lambda>st s. if st = WebSearch then onStop 15 s else s)\<rparr>"


definition resolvedSearchEnv :: env where
  "resolvedSearchEnv = exampleEnv\<lparr>webSearch := (\<lambda>q. Resolved (replicate 10000 (CHR ''a'')))\<rparr>"

definition zeroLimitConfig :: Config where
  "zeroLimitConfig = webConfig\<lparr>webLimit := Some 0\<rparr>"
text \<open>A search that resolves with a short summary, and a web configuration with a note.\<close>

definition rainSearchEnv :: env where
  "rainSearchEnv = exampleEnv\<lparr>webSearch := (\<lambda>q. Resolved ''rain tomorrow'')\<rparr>"

definition noteWebConfig :: Config where
  "noteWebConfig = webConfig\<lparr>useNote := Some True, noteContent := Some ''buy milk''\<rparr>"
section \<open>The reconciler: basic facts\<close>

lemma updateAssistantTurn_applied:
  "\<not> guardMismatch callId f e c s \<Longrightarrow> \<not> alreadyFinalized callId u f e c s \<Longrightarrow>
   turns (updateAssistantTurn now callId u f e c s) = turnUpdater now u f e c (turns s)"
  by (simp add: updateAssistantTurn_def Let_def)

lemma turnUpdater_assistant:
  "prevTurns \<noteq> [] \<Longrightarrow> role (last prevTurns) = Assistant \<Longrightarrow>
   turnUpdater now u f e c prevTurns =
     butlast prevTurns @
       [(last prevTurns)\<lparr>rawContent :=
            (if c = Some True then
               (if rawContent (last prevTurns) = [] then u else rawContent (last prevTurns) @ '' '' @ u)
             else if e = Some True then ''Error: '' @ (if u = [] then ''Unknown stream/handler error'' else u)
             else u),
          status := (if e = Some True then Error else if c = Some True then Cancelled
                     else if f then Complete else Streaming),
          timestamp := now\<rparr>]"
  by (simp add: turnUpdater_def Let_def truthy_def orElse_def)



lemma overlapState_guard: "completionGuard overlapState = Some 2"
  by code_simp

lemma exampleState_last:
  "turns (exampleState g) \<noteq> []" "role (last (turns (exampleState g))) = Assistant"
  by (simp_all add: exampleState_def exampleTurns_def)





section \<open>Claims about the reconciler\<close>

text \<open>
  C1. A second send is issued before the first resolves, so the guard holds the second
  send's token. What holds of the code: an update tagged with another token is not
  applied at all when it is not terminal (the state is unchanged); when it is terminal
  it still forces \<open>loading = false\<close> and leaves the guard slot and the abort controller of
  the second send alone, but it is applied to the trailing turn by the usual merge rule,
  so the content of the second send's assistant turn is overwritten.
\<close>

theorem stale_update_reconciliation:
  assumes "completionGuard s = Some active" and "callId \<noteq> Some active"
  shows "(\<not> isTerminal f e c \<longrightarrow> updateAssistantTurn now callId u f e c s = s)
       \<and> (isTerminal f e c \<longrightarrow>
            turns (updateAssistantTurn now callId u f e c s) = turnUpdater now u f e c (turns s)
          \<and> \<not> loading (updateAssistantTurn now callId u f e c s)
          \<and> completionGuard (updateAssistantTurn now callId u f e c s) = Some active
          \<and> abortControllerRef (updateAssistantTurn now callId u f e c s) = abortControllerRef s)"
  using assms
  by (auto simp add: Let_def updateAssistantTurn_def isTerminal_def guardMismatch_def
      alreadyFinalized_def truthy_def)

theorem stale_update_reconciliation_witness:
  "completionGuard overlapState = Some 2 \<and> Some 1 \<noteq> Some (2::nat)
   \<and> updateAssistantTurn 40 (Some 1) ''answer one'' False (Some False) None overlapState
       = overlapState
   \<and> \<not> loading (updateAssistantTurn 40 (Some 1) ''answer one'' True (Some False) None overlapState)
   \<and> completionGuard
       (updateAssistantTurn 40 (Some 1) ''answer one'' True (Some False) None overlapState) = Some 2"
proof -
  have h1: "completionGuard overlapState = Some 2" by (rule overlapState_guard)
  have h2: "Some 1 \<noteq> Some (2::nat)" by simp
  show ?thesis
    using h1 h2
      stale_update_reconciliation [OF h1 h2, of False "Some False" None 40 "''answer one''"]
      stale_update_reconciliation [OF h1 h2, of True "Some False" None 40 "''answer one''"]
    by (simp add: isTerminal_def)
qed

text \<open>
  The claim as written fails: the second send has streamed \<open>answer two\<close> into its turn,
  and the first send's late terminal update replaces it.
\<close>

theorem stale_terminal_update_overwrites_successor:
  "completionGuard overlapState = Some 2
   \<and> rawContent (last (turns overlapState)) = ''answer two''
   \<and> rawContent (last (turns
        (updateAssistantTurn 40 (Some 1) ''answer one'' True (Some False) None overlapState)))
       = ''answer one''"
  by code_simp

text \<open>
  C3. A cancellation update (the cancel flag set, the error flag not) applied to a
  trailing assistant turn with content \<open>c\<close> and text \<open>u\<close> leaves \<open>c\<close>, a space and \<open>u\<close> (just
  \<open>u\<close> when \<open>c\<close> is empty) with status \<open>cancelled\<close>; the other turns are untouched and the
  streamed content stays as a prefix.
\<close>

theorem cancellation_appends_to_content:
  assumes "turns s \<noteq> []" and "role (last (turns s)) = Assistant"
    and "isCancelled = Some True" and "isError \<noteq> Some True"
  shows "turns (updateAssistantTurn now callId u isFinished isError isCancelled s) =
           butlast (turns s) @
             [(last (turns s))\<lparr>rawContent :=
                  (if rawContent (last (turns s)) = [] then u
                   else rawContent (last (turns s)) @ '' '' @ u),
                status := Cancelled, timestamp := now\<rparr>]
       \<and> prefix (rawContent (last (turns s)))
           (rawContent (last (turns
              (updateAssistantTurn now callId u isFinished isError isCancelled s))))"
proof -
  have a: "\<not> guardMismatch callId isFinished isError isCancelled s"
    using assms by (simp add: guardMismatch_def truthy_def)
  have b: "\<not> alreadyFinalized callId u isFinished isError isCancelled s"
    using assms by (simp add: alreadyFinalized_def truthy_def)
  have t: "turns (updateAssistantTurn now callId u isFinished isError isCancelled s) =
      turnUpdater now u isFinished isError isCancelled (turns s)"
    by (rule updateAssistantTurn_applied [OF a b])
  show ?thesis
    unfolding t using assms by (simp add: turnUpdater_assistant)
qed

theorem cancellation_appends_to_content_witness:
  "turns (exampleState (Some 7)) \<noteq> []
   \<and> role (last (turns (exampleState (Some 7)))) = Assistant
   \<and> rawContent (last (turns (exampleState (Some 7)))) = ''partial''
   \<and> turns (updateAssistantTurn 9 (Some 7) ''[Operation cancelled by user]'' True (Some False)
        (Some True) (exampleState (Some 7))) =
       [\<lparr>role = User, rawContent = ''hi'', status = Complete, timestamp = 1,
         webDisplayContent = None\<rparr>,
        \<lparr>role = Assistant, rawContent = ''partial [Operation cancelled by user]'',
         status = Cancelled, timestamp = 9, webDisplayContent = None\<rparr>]"
proof -
  have h3: "Some True = Some True" by simp
  have h4: "Some False \<noteq> Some True" by simp
  show ?thesis
    using exampleState_last [of "Some 7"]
      cancellation_appends_to_content [OF exampleState_last [of "Some 7"] h3 h4,
        of 9 "Some 7" "''[Operation cancelled by user]''" True]
    by (simp add: exampleState_def exampleTurns_def)
qed



text \<open>
  C8. A terminal update arrives with a token while the guard slot is empty. What holds of
  the code: the state is preserved, with \<open>loading = false\<close> and status \<open>idle\<close>, exactly when
  the update is a finish with empty text and no error or cancel flag, or an error whose
  text contains \<open>Operation cancelled by user\<close> or \<open>Streaming operation cancelled\<close>; any
  other terminal update is applied to the store by the usual merge rule, and the status
  becomes \<open>done\<close> unless the error or cancel flag is set.
\<close>

theorem finalized_guard_preserves_state:
  assumes "completionGuard s = None" and "callId \<noteq> None" and "isTerminal f e c"
  shows "((u = [] \<and> f \<and> e \<noteq> Some True \<and> c \<noteq> Some True) \<or>
          (e = Some True \<and>
             (includesStr u ''Operation cancelled by user'' \<or>
              includesStr u ''Streaming operation cancelled''))
          \<longrightarrow> updateAssistantTurn now callId u f e c s = s\<lparr>loading := False, chatStatus := Idle\<rparr>)
       \<and> (\<not> ((u = [] \<and> f \<and> e \<noteq> Some True \<and> c \<noteq> Some True) \<or>
              (e = Some True \<and>
                 (includesStr u ''Operation cancelled by user'' \<or>
                  includesStr u ''Streaming operation cancelled'')))
          \<longrightarrow> turns (updateAssistantTurn now callId u f e c s) = turnUpdater now u f e c (turns s)
            \<and> \<not> loading (updateAssistantTurn now callId u f e c s)
            \<and> chatStatus (updateAssistantTurn now callId u f e c s) =
                (if e = Some True \<or> c = Some True then Idle else Done))"
  using assms
  by (auto simp add: Let_def updateAssistantTurn_def isTerminal_def guardMismatch_def
      alreadyFinalized_def truthy_def)

theorem finalized_guard_preserves_state_witness:
  "completionGuard (exampleState None) = None \<and> Some (7::nat) \<noteq> None
   \<and> isTerminal True (Some True) None
   \<and> includesStr ''Streaming operation cancelled by abort'' ''Streaming operation cancelled''
   \<and> updateAssistantTurn 9 (Some 7) ''Streaming operation cancelled by abort'' True (Some True) None
        (exampleState None) = (exampleState None)\<lparr>loading := False, chatStatus := Idle\<rparr>"
proof -
  have h1: "completionGuard (exampleState None) = None" by (simp add: exampleState_def)
  have h2: "Some (7::nat) \<noteq> None" by simp
  have h3: "isTerminal True (Some True) None" by (simp add: isTerminal_def)
  have h4: "includesStr ''Streaming operation cancelled by abort'' ''Streaming operation cancelled''"
    by simp
  show ?thesis
    using h1 h2 h3 h4
      finalized_guard_preserves_state [OF h1 h2 h3,
        of "''Streaming operation cancelled by abort''" 9]
    by simp
qed

text \<open>
  The claim as written fails: a late finish that carries text is applied, and the status
  becomes \<open>done\<close>.
\<close>

theorem late_finish_with_text_is_applied:
  "completionGuard (exampleState None) = None
   \<and> rawContent (last (turns (exampleState None))) = ''partial''
   \<and> rawContent (last (turns
        (updateAssistantTurn 9 (Some 7) ''late text'' True None None (exampleState None))))
       = ''late text''
   \<and> chatStatus (updateAssistantTurn 9 (Some 7) ''late text'' True None None (exampleState None))
       = Done"
  by code_simp



text \<open>
  C10. For a terminal update, the guard slot and the abort controller reference are
  cleared when, and only when, the token of the update is the one in the guard slot; an
  update with another token leaves both as they are. In every case no signal is aborted,
  \<open>loading\<close> becomes false and the chat status is reset to \<open>idle\<close> or \<open>done\<close>.
\<close>

theorem guard_cleared_only_by_active_token:
  assumes "isTerminal isFinished isError isCancelled"
  shows "(completionGuard s \<noteq> callId \<longrightarrow>
            completionGuard (updateAssistantTurn now callId u isFinished isError isCancelled s)
              = completionGuard s
          \<and> abortControllerRef (updateAssistantTurn now callId u isFinished isError isCancelled s)
              = abortControllerRef s)
       \<and> (completionGuard s = callId \<longrightarrow>
            completionGuard (updateAssistantTurn now callId u isFinished isError isCancelled s) = None
          \<and> abortControllerRef (updateAssistantTurn now callId u isFinished isError isCancelled s)
              = None)
       \<and> abortedSignals (updateAssistantTurn now callId u isFinished isError isCancelled s)
           = abortedSignals s
       \<and> \<not> loading (updateAssistantTurn now callId u isFinished isError isCancelled s)
       \<and> chatStatus (updateAssistantTurn now callId u isFinished isError isCancelled s) =
           (if alreadyFinalized callId u isFinished isError isCancelled s
               \<or> isError = Some True \<or> isCancelled = Some True then Idle else Done)"
  using assms
  by (auto simp add: Let_def updateAssistantTurn_def isTerminal_def guardMismatch_def
      alreadyFinalized_def truthy_def)

theorem guard_cleared_only_by_active_token_witness:
  "isTerminal True (Some False) None
   \<and> completionGuard (exampleState (Some 2)) \<noteq> Some 1
   \<and> completionGuard (updateAssistantTurn 9 (Some 1) ''late'' True (Some False) None
        (exampleState (Some 2))) = Some 2
   \<and> abortControllerRef (updateAssistantTurn 9 (Some 1) ''late'' True (Some False) None
        (exampleState (Some 2))) = Some 0
   \<and> completionGuard (updateAssistantTurn 9 (Some 2) ''done'' True (Some False) None
        (exampleState (Some 2))) = None
   \<and> abortControllerRef (updateAssistantTurn 9 (Some 2) ''done'' True (Some False) None
        (exampleState (Some 2))) = None
   \<and> \<not> loading (updateAssistantTurn 9 (Some 1) ''late'' True (Some False) None
        (exampleState (Some 2)))"
proof -
  have h: "isTerminal True (Some False) None" by (simp add: isTerminal_def)
  show ?thesis
    using h
      guard_cleared_only_by_active_token [OF h, of "exampleState (Some 2)" "Some 1" 9 "''late''"]
      guard_cleared_only_by_active_token [OF h, of "exampleState (Some 2)" "Some 2" 9 "''done''"]
    by (simp add: exampleState_def)
qed
section \<open>The send routine: traces and states\<close>

lemma snd_onState: "snd (onState f r) = snd r"
  by (simp add: onState_def)

lemma fst_onState: "fst (onState f r) = f (fst r)"
  by (simp add: onState_def)

lemma snd_emit: "snd (emit e r) = snd r @ [e]"
  by (simp add: emit_def)

lemma fst_emit: "fst (emit e r) = fst r"
  by (simp add: emit_def)

lemma snd_suspend: "snd (suspend env st r) = snd r @ [Awaited st (turns (fst r))]"
  by (simp add: suspend_def)

lemma fst_suspend: "fst (suspend env st r) = during env st (fst r)"
  by (simp add: suspend_def)

lemmas run_simps = snd_onState fst_onState snd_emit fst_emit snd_suspend fst_suspend

lemma awaitStrategy_trace:
  "snd (awaitStrategy h env callId controller st cbk r) = snd r @ [Awaited st (turns (fst r))]"
  by (simp add: awaitStrategy_def Let_def run_simps split: outcome.split)

lemma onSend_dispatch_trace:
  "snd (onSend_dispatch h env callId config currentModel controller sys msgs r) =
     snd r @
       (if computeLevel config = Some ''high'' then [Awaited HighCompute (turns (fst r))]
        else if computeLevel config = Some ''medium'' then [Awaited MediumCompute (turns (fst r))]
        else if \<not> jsTruthy (lookupProp (urlMap env config) (strOr (host currentModel) '''')) then []
        else [Requested (jsToString (lookupProp (urlMap env config) (strOr (host currentModel) '''')))
                (messagesForApiPayload sys msgs),
              Awaited FetchStream (turns (fst r))])"
  by (simp add: onSend_dispatch_def Let_def awaitStrategy_trace run_simps)

lemma onSend_page_value: "fst (onSend_page env config r) = pageFragmentOf env config"
  by (simp add: onSend_page_def pageFragmentOf_def Let_def)

lemma onSend_page_trace:
  "snd (snd (onSend_page env config r)) =
     snd r @
       (if chatMode config = Some Page then
          Awaited TabsQuery (turns (fst r)) #
            (case pageAwait env of None \<Rightarrow> []
             | Some st \<Rightarrow> [Awaited st (turns (during env TabsQuery ((fst r)\<lparr>chatStatus := Reading\<rparr>)))])
        else [])"
  by (simp add: onSend_page_def Let_def run_simps split: option.split)


lemma onSend_prompt_unfold:
  "onSend_prompt h env callId config currentModel controller msg res sc r =
     onSend_dispatch h env callId config currentModel controller
       (systemContent config (pageFragmentOf env config) (webContentForLlm config res) sc)
       (messageForApi h msg) (snd (onSend_page env config r))"
  using onSend_page_value [of env config r]
  by (simp add: onSend_prompt_def Let_def split_beta)




lemma onSend_scrape_trace:
  "snd (onSend_scrape env msg r) =
     snd r @ (if matchUrls msg = [] then [] else [Awaited ScrapeUrls (turns (fst r))])"
  by (simp add: onSend_scrape_def Let_def run_simps)


lemma onSend_turns_trace: "snd (onSend_turns env msg r) = snd r"
  by (simp add: onSend_turns_def Let_def run_simps)


lemma onSend_begin_fields:
  "turns (snd (onSend_begin callId config s)) = turns s"
  "completionGuard (snd (onSend_begin callId config s)) = Some callId"
  "fst (onSend_begin callId config s) = controllers s"
  "loading (snd (onSend_begin callId config s))"
  by (simp_all add: onSend_begin_def Let_def split: option.split)

lemma onSend_unfold:
  assumes "hookConfig h = Some config" and "msg \<noteq> []"
  shows "onSend h env callId (Some msg) s =
     onSend_optimize h env callId config (controllers s) msg (scrapedContentOf env msg)
       (onSend_turns env msg (onSend_scrape env msg (snd (onSend_begin callId config s), [])))"
  using assms onSend_begin_fields(3) [of callId config s]
  by (simp add: onSend_def Let_def strOr_def orElse_def split_beta)

subsection \<open>The first await after a point of the run\<close>


lemma firstAwaitSees_Awaited: "firstAwaitSees ts (Awaited st ts' # es) = (st \<noteq> ScrapeUrls \<and> ts' = ts)"
  by (simp add: firstAwaitSees_def)

lemma firstAwaitSees_Requested: "firstAwaitSees ts (Requested u m # es) = firstAwaitSees ts es"
  by (simp add: firstAwaitSees_def)









section \<open>Claims about the send routine\<close>




subsection \<open>A search that rejects with an error value\<close>

lemma onSend_search_rejected:
  assumes "chatMode config = Some Web" and "webSearch env q = Rejected (RejValue e)"
  shows "onSend_search h env callId config currentModel controller msg q d sc r =
     (if errName e = ''AbortError''
         \<or> controller \<in> abortedSignals (during env WebSearch ((fst r)\<lparr>chatStatus := Searching\<rparr>))
      then during env WebSearch ((fst r)\<lparr>chatStatus := Searching\<rparr>)
      else updateAssistantTurn (nowUpdate env) (Some callId)
             (''Web Search Failed: '' @ (if instanceofError e then errMessage e else errString e))
             True (Some True) (Some False)
             ((during env WebSearch ((fst r)\<lparr>chatStatus := Searching\<rparr>))\<lparr>chatStatus := Idle\<rparr>),
      snd r @ [Awaited WebSearch (turns (fst r))])"
  using assms
  by (simp add: onSend_search_def Let_def onState_def suspend_def)

lemma onSend_optimize_rejected:
  assumes "chatMode config = Some Web"
    and "currentModelOf config = Some currentModel"
    and "\<forall>q. webSearch env q = Rejected (RejValue e)"
    and "during env OptimizeQuery = (\<lambda>s. s)"
  shows "fst (onSend_optimize h env callId config controller msg sc r) =
     (if errName e = ''AbortError''
         \<or> controller \<in> abortedSignals (during env WebSearch ((fst r)\<lparr>chatStatus := Searching\<rparr>))
      then during env WebSearch ((fst r)\<lparr>chatStatus := Searching\<rparr>)
      else updateAssistantTurn (nowUpdate env) (Some callId)
             (''Web Search Failed: '' @ (if instanceofError e then errMessage e else errString e))
             True (Some True) (Some False)
             ((during env WebSearch ((fst r)\<lparr>chatStatus := Searching\<rparr>))\<lparr>chatStatus := Idle\<rparr>))"
  using assms
  by (simp add: onSend_optimize_def onSend_search_rejected Let_def onState_def suspend_def
      split_beta)

lemma onSend_before_optimize:
  assumes "during env ScrapeUrls = (\<lambda>s. s)"
  shows "(fst (onSend_turns env msg (onSend_scrape env msg (s1, []))))\<lparr>chatStatus := Searching\<rparr>
      = s1\<lparr>turns := turns s1 @ [userTurn env msg, assistantTurnPlaceholder env],
            message := [], chatStatus := Searching\<rparr>"
  using assms
  by (simp add: onSend_turns_def onSend_scrape_def Let_def onState_def suspend_def)

text \<open>
  A send in web mode whose search rejects with an error value, no other handler running
  before the search is awaited: on a cancellation the send applies nothing; otherwise
  it applies one error update, and when nothing ran during the search either, the store
  is the prior turns, the user turn and one error turn.
\<close>

lemma search_failure_with_error_value:
  assumes cfg: "hookConfig h = Some config" and msg: "msg \<noteq> []"
    and web: "chatMode config = Some Web"
    and model: "currentModelOf config = Some currentModel"
    and fail: "\<forall>q. webSearch env q = Rejected (RejValue e)"
    and quiet: "\<forall>st. st \<noteq> WebSearch \<longrightarrow> during env st = (\<lambda>s. s)"
  shows "let pre = (snd (onSend_begin callId config s))
                     \<lparr>turns := turns s @ [userTurn env msg, assistantTurnPlaceholder env],
                      message := [], chatStatus := Searching\<rparr>;
             resumed = during env WebSearch pre;
             cancelled = (errName e = ''AbortError'' \<or> controllers s \<in> abortedSignals resumed);
             s' = fst (onSend h env callId (Some msg) s)
         in (cancelled \<longrightarrow> s' = resumed)
          \<and> (\<not> cancelled \<longrightarrow>
               s' = updateAssistantTurn (nowUpdate env) (Some callId)
                      (''Web Search Failed: '' @
                         (if instanceofError e then errMessage e else errString e))
                      True (Some True) (Some False) (resumed\<lparr>chatStatus := Idle\<rparr>))
          \<and> (\<not> cancelled \<and> resumed = pre \<longrightarrow>
               turns s' = turns s @
                 [userTurn env msg,
                  \<lparr>role = Assistant,
                    rawContent = ''Error: Web Search Failed: '' @
                       (if instanceofError e then errMessage e else errString e),
                    status = Error, timestamp = nowUpdate env, webDisplayContent = None\<rparr>]
               \<and> \<not> loading s' \<and> chatStatus s' = Idle \<and> completionGuard s' = None)
          \<and> (cancelled \<and> resumed = pre \<longrightarrow>
               turns s' = turns s @ [userTurn env msg, assistantTurnPlaceholder env]
               \<and> loading s' \<and> completionGuard s' = Some callId)"
proof -
  let ?s1 = "snd (onSend_begin callId config s)"
  let ?pre = "?s1\<lparr>turns := turns s @ [userTurn env msg, assistantTurnPlaceholder env],
                  message := [], chatStatus := Searching\<rparr>"
  let ?resumed = "during env WebSearch ?pre"
  let ?upd = "updateAssistantTurn (nowUpdate env) (Some callId)
                (''Web Search Failed: '' @ (if instanceofError e then errMessage e else errString e))
                True (Some True) (Some False) (?resumed\<lparr>chatStatus := Idle\<rparr>)"
  let ?r2 = "onSend_turns env msg (onSend_scrape env msg (?s1, []))"
  have bf: "turns ?s1 = turns s" "completionGuard ?s1 = Some callId" "loading ?s1"
    using onSend_begin_fields [of callId config s] by simp_all
  have q1: "during env ScrapeUrls = (\<lambda>s. s)" and q2: "during env OptimizeQuery = (\<lambda>s. s)"
    using quiet by simp_all
  have pre_eq: "(fst ?r2)\<lparr>chatStatus := Searching\<rparr> = ?pre"
    using onSend_before_optimize [OF q1, of msg ?s1] by (simp add: bf)
  have res: "fst (onSend h env callId (Some msg) s) =
      (if errName e = ''AbortError'' \<or> controllers s \<in> abortedSignals ?resumed
       then ?resumed else ?upd)"
    unfolding onSend_unfold [OF cfg msg] onSend_optimize_rejected [OF web model fail q2] pre_eq ..
  have last_part: "?resumed = ?pre \<Longrightarrow> turns ?upd = turns s @
                 [userTurn env msg,
                  \<lparr>role = Assistant,
                    rawContent = ''Error: Web Search Failed: '' @
                       (if instanceofError e then errMessage e else errString e),
                    status = Error, timestamp = nowUpdate env, webDisplayContent = None\<rparr>]
               \<and> \<not> loading ?upd \<and> chatStatus ?upd = Idle \<and> completionGuard ?upd = None"
    by (simp add: bf updateAssistantTurn_def guardMismatch_def
        alreadyFinalized_def isTerminal_def truthy_def turnUpdater_def Let_def orElse_def
        assistantTurnPlaceholder_def butlast_append)
  show ?thesis
    unfolding Let_def
    using last_part bf by (auto simp add: res)
qed


subsection \<open>The request handed to the streaming transport\<close>

lemma systemContent_filter:
  "systemContent config pageForLlm webForLlm scrapedContent =
     trim (join (nl @ nl)
       (filter (\<lambda>fragment. fragment \<noteq> [])
          [personaOf config, userContextStatement config, noteContextString config,
           pageContextString config pageForLlm, webContextString config webForLlm,
           (if scrapedContent = [] then [] else scrapedContextString scrapedContent)]))"
  by (simp add: systemContent_def systemPromptParts_def Let_def scrapedContextString_def)

lemma requested_dispatch:
  assumes "Requested u m \<in> set (snd (onSend_dispatch h env callId config currentModel controller
             sys msgs r))"
  shows "Requested u m \<in> set (snd r) \<or>
         (m = messagesForApiPayload sys msgs \<and> computeLevel config \<noteq> Some ''high''
          \<and> computeLevel config \<noteq> Some ''medium'')"
  using assms by (auto simp add: onSend_dispatch_trace split: if_splits)

lemma requested_page:
  assumes "Requested u m \<in> set (snd (snd (onSend_page env config r)))"
  shows "Requested u m \<in> set (snd r)"
  using assms by (auto simp add: onSend_page_trace split: if_splits option.splits)

lemma requested_prompt:
  assumes "Requested u m \<in> set (snd (onSend_prompt h env callId config currentModel controller
             msg res sc r))"
  shows "Requested u m \<in> set (snd r) \<or>
         (m = messagesForApiPayload
                (systemContent config (pageFragmentOf env config) (webContentForLlm config res) sc)
                (messageForApi h msg)
          \<and> computeLevel config \<noteq> Some ''high'' \<and> computeLevel config \<noteq> Some ''medium'')"
  using requested_dispatch [OF assms [unfolded onSend_prompt_unfold]] requested_page
  by blast

lemma requested_prompt_ext:
  assumes "Requested u m \<in> set (snd (onSend_prompt h env callId config currentModel controller
             msg res sc r'))"
    and "snd r' = snd r @ [Awaited st ts]"
  shows "Requested u m \<in> set (snd r) \<or>
         (m = messagesForApiPayload
                (systemContent config (pageFragmentOf env config) (webContentForLlm config res) sc)
                (messageForApi h msg)
          \<and> computeLevel config \<noteq> Some ''high'' \<and> computeLevel config \<noteq> Some ''medium'')"
  using requested_prompt [OF assms(1)] assms(2) by auto

lemma requested_search:
  assumes "Requested u m \<in> set (snd (onSend_search h env callId config currentModel controller
             msg q d sc r))"
  shows "Requested u m \<in> set (snd r) \<or>
         (m = messagesForApiPayload
                (systemContent config (pageFragmentOf env config)
                   (webContentForLlm config
                      (if chatMode config = Some Web then
                         (case webSearch env q of Resolved res \<Rightarrow> res | Rejected e \<Rightarrow> '''')
                       else '''')) sc)
                (messageForApi h msg)
          \<and> computeLevel config \<noteq> Some ''high'' \<and> computeLevel config \<noteq> Some ''medium'')"
proof (cases "chatMode config = Some Web")
  case False
  then show ?thesis
    using assms requested_prompt [of u m h env callId config currentModel controller msg "''''" sc r]
    by (simp add: onSend_search_def)
next
  case True
  show ?thesis
  proof (cases "webSearch env q")
    case (Rejected e)
    then show ?thesis
      using assms True
      by (cases e) (auto simp add: onSend_search_def Let_def run_simps split: if_splits)
  next
    case (Resolved res)
    have p: "Requested u m \<in> set (snd r) \<or>
         (m = messagesForApiPayload
                (systemContent config (pageFragmentOf env config) (webContentForLlm config res) sc)
                (messageForApi h msg)
          \<and> computeLevel config \<noteq> Some ''high'' \<and> computeLevel config \<noteq> Some ''medium'')"
      if "Requested u m \<in> set (snd (onSend_prompt h env callId config currentModel controller
             msg res sc r'))" and "snd r' = snd r @ [Awaited WebSearch (turns (fst r))]" for r'
      using that by (rule requested_prompt_ext)
    show ?thesis
      using assms True Resolved
      by (auto simp add: onSend_search_def Let_def run_simps split: if_splits dest!: p)
  qed
qed

lemma requested_optimize:
  assumes "Requested u m \<in> set (snd (onSend_optimize h env callId config controller msg sc r))"
  shows "Requested u m \<in> set (snd r) \<or>
         (m = messagesForApiPayload
                (systemContent config (pageFragmentOf env config)
                   (webContentForLlm config (searchResOf env config msg)) sc)
                (messageForApi h msg)
          \<and> computeLevel config \<noteq> Some ''high'' \<and> computeLevel config \<noteq> Some ''medium'')"
proof (cases "currentModelOf config")
  case None
  then show ?thesis
    using assms by (simp add: onSend_optimize_def run_simps)
next
  case (Some currentModel)
  show ?thesis
  proof (cases "chatMode config = Some Web")
    case False
    then show ?thesis
      using assms Some
        requested_search [of u m h env callId config currentModel controller msg msg "''''" sc r]
      by (simp add: onSend_optimize_def searchResOf_def)
  next
    case True
    let ?r2 = "suspend env OptimizeQuery (onState (\<lambda>s. s\<lparr>chatStatus := Thinking\<rparr>) r)"
    have "Requested u m \<in> set (snd (onSend_search h env callId config currentModel controller
             msg (fst (optimizedQueryOf env msg)) (snd (optimizedQueryOf env msg)) sc ?r2))"
      using assms Some True by (simp add: onSend_optimize_def Let_def split_beta)
    from requested_search [OF this] show ?thesis
      using True by (auto simp add: run_simps searchResOf_def)
  qed
qed

lemma requested_payload:
  assumes cfg: "hookConfig h = Some config"
    and req: "Requested u m \<in> set (snd (onSend h env callId (Some msg) s))"
  shows "m = messagesForApiPayload
                (systemContent config (pageFragmentOf env config)
                   (webContentForLlm config (searchResOf env config msg))
                   (scrapedContentOf env msg))
                (messageForApi h msg)
          \<and> computeLevel config \<noteq> Some ''high'' \<and> computeLevel config \<noteq> Some ''medium''"
proof (cases "msg = []")
  case True
  then show ?thesis
    using cfg req by (simp add: onSend_def strOr_def orElse_def)
next
  case False
  have "Requested u m \<notin> set (snd (onSend_turns env msg
          (onSend_scrape env msg (snd (onSend_begin callId config s), []))))"
    by (simp add: onSend_turns_trace onSend_scrape_trace)
  then show ?thesis
    using requested_optimize [OF req [unfolded onSend_unfold [OF cfg False]]] by blast
qed

subsection \<open>A web send with a long search result\<close>

lemma webContentForLlm_eq:
  "webContentForLlm config res =
     (if webLimit config = Some 128 then res
      else take (nat (1000 * (case webLimit config of None \<Rightarrow> 1
                              | Some n \<Rightarrow> if n = 0 then 1 else n))) res)"
  by (simp add: webContentForLlm_def numOrOne_def substring0_def Let_def split: option.split)

lemma pageFragmentOf_eq:
  "pageFragmentOf env config =
     (if chatMode config = Some Page then
        (if contextLimit config = Some 128 then currentPageContentOf env
         else take (nat (1000 * (case contextLimit config of None \<Rightarrow> 1
                                 | Some n \<Rightarrow> if n = 0 then 1 else n)))
                (currentPageContentOf env))
      else '''')"
  by (simp add: pageFragmentOf_def pageContentForLlm_def numOrOne_def substring0_def Let_def
      split: option.split)

lemma web_send_requests:
  "Requested ''http://localhost:11434/api/chat''
        (messagesForApiPayload
           (systemContent (webConfig\<lparr>webLimit := L\<rparr>) ''''
              (webContentForLlm (webConfig\<lparr>webLimit := L\<rparr>) R) '''')
           [\<lparr>apiRole = ApiUser, content = ''hello''\<rparr>])
       \<in> set (snd (onSend (exampleHook (webConfig\<lparr>webLimit := L\<rparr>))
                      (exampleEnv\<lparr>webSearch := (\<lambda>q. Resolved R)\<rparr>) 1 (Some ''hello'') idleState))"
proof -
  let ?config = "webConfig\<lparr>webLimit := L\<rparr>"
  let ?env = "exampleEnv\<lparr>webSearch := (\<lambda>q. Resolved R)\<rparr>"
  have cfg: "hookConfig (exampleHook ?config) = Some ?config" by (simp add: exampleHook_def)
  have ne: "''hello'' \<noteq> []" by simp
  have m: "currentModelOf ?config = Some \<lparr>modelId = ''m1'', host = Some ''ollama''\<rparr>"
    by (simp add: currentModelOf_def webConfig_def exampleConfig_def)
  have web: "chatMode ?config = Some Web" by (simp add: webConfig_def)
  have lv: "computeLevel ?config = Some ''low''" by (simp add: webConfig_def exampleConfig_def)
  have mu: "matchUrls ''hello'' = []" by code_simp
  have sc: "scrapedContentOf ?env ''hello'' = ''''"
    by (simp add: scrapedContentOf_def mu)
  have oq: "optimizedQueryOf ?env ''hello'' = (''hello'', ''**Original query:** '' @ dq @ ''hello'' @ dq @ nl @ nl)"
    by (simp add: optimizedQueryOf_def exampleEnv_def)
  have du: "during ?env = (\<lambda>st s. s)" by (simp add: exampleEnv_def)
  have ws: "webSearch ?env q = Resolved R" for q by simp
  have ab: "abortedSignals (snd (onSend_begin c ?config idleState)) = {}" for c
    by (simp add: onSend_begin_def idleState_def Let_def)
  have um: "lookupProp (urlMap ?env ?config) (strOr (Some ''ollama'') '''') = JsString ''http://localhost:11434/api/chat''"
    by (simp add: lookupProp_def urlMap_def webConfig_def exampleConfig_def strOr_def orElse_def)
  have pf: "pageFragmentOf ?env ?config = ''''" by (simp add: pageFragmentOf_def web)
  have mf: "messageForApi (exampleHook ?config) ''hello'' = [\<lparr>apiRole = ApiUser, content = ''hello''\<rparr>]"
    by (simp add: messageForApi_def exampleHook_def)
  show ?thesis
    unfolding onSend_unfold [OF cfg ne]
    by (simp add: onSend_optimize_def m web oq sc onSend_search_def ws Let_def run_simps
        suspend_def onState_def du ab onSend_scrape_def mu onSend_turns_def
        onSend_prompt_unfold onSend_dispatch_trace lv um pf mf jsTruthy_def
        jsToString_def onSend_page_def)
qed

lemma trim_id:
  assumes "s \<noteq> []" and "\<not> isSpace (hd s)" and "\<not> isSpace (last s)"
  shows "trim s = s"
proof -
  have a: "dropWhile isSpace s = s"
    using assms(1,2) by (cases s) simp_all
  from assms(1) obtain xs x where s: "s = xs @ [x]"
    by (metis append_butlast_last_id)
  have b: "dropWhile isSpace (rev s) = rev s"
    using assms(3) by (simp add: s)
  show ?thesis by (simp add: trim_def a b)
qed

lemma example_fragments:
  "personaOf (webConfig\<lparr>webLimit := L\<rparr>) = ''Be brief.''"
  "userContextStatement (webConfig\<lparr>webLimit := L\<rparr>) = ''''"
  "noteContextString (webConfig\<lparr>webLimit := L\<rparr>) = ''''"
  "chatMode (webConfig\<lparr>webLimit := L\<rparr>) = Some Web"
  by (simp_all add: personaOf_def userContextStatement_def noteContextString_def webConfig_def
      exampleConfig_def lookupProp_def jsTruthy_def jsToString_def truthyStr_def Let_def)

lemma web_prompt_trim:
  assumes "0 < n"
  shows "trim (''Be brief.'' @ nl @ nl @ ''Refer to this web search summary: ''
              @ replicate n (CHR ''a'')) =
           ''Be brief.'' @ nl @ nl @ ''Refer to this web search summary: ''
              @ replicate n (CHR ''a'')"
proof -
  obtain k where n: "n = Suc k" using assms by (cases n) simp_all
  have sp: "\<not> isSpace (CHR ''a'')" "\<not> isSpace (CHR ''B'')" by (simp_all add: isSpace_def)
  have l: "last (''Be brief.'' @ nl @ nl @ ''Refer to this web search summary: ''
              @ replicate (Suc k) (CHR ''a'')) = CHR ''a''"
    by (simp del: replicate.simps)
  show ?thesis
    unfolding n by (rule trim_id) (simp_all add: sp l del: replicate.simps)
qed

lemma web_prompt:
  assumes "0 < n"
  shows "systemContent (webConfig\<lparr>webLimit := L\<rparr>) '''' (replicate n (CHR ''a'')) '''' =
     ''Be brief.'' @ nl @ nl @ ''Refer to this web search summary: '' @ replicate n (CHR ''a'')"
proof -
  have ne: "replicate n (CHR ''a'') \<noteq> []" using assms by simp
  show ?thesis
    unfolding systemContent_filter
    using web_prompt_trim [OF assms] ne
    by (simp add: example_fragments webContextString_def pageContextString_def)
qed

lemma web_payload:
  assumes "0 < n"
  shows "messagesForApiPayload
           (''Be brief.'' @ nl @ nl @ ''Refer to this web search summary: ''
              @ replicate n (CHR ''a''))
           [\<lparr>apiRole = ApiUser, content = ''hello''\<rparr>] =
         [\<lparr>apiRole = ApiSystem,
            content = ''Be brief.'' @ nl @ nl @ ''Refer to this web search summary: ''
                        @ replicate n (CHR ''a'')\<rparr>,
          \<lparr>apiRole = ApiUser, content = ''hello''\<rparr>]"
  unfolding messagesForApiPayload_def web_prompt_trim [OF assms] by simp

lemma webConfig_limit: "webConfig\<lparr>webLimit := Some 5\<rparr> = webConfig"
  by (simp add: webConfig_def exampleConfig_def)

lemma web_send_requests_long:
  assumes "L = Some 5 \<and> n = 5000 \<or> L = Some 0 \<and> n = 1000"
  shows "Requested ''http://localhost:11434/api/chat''
        [\<lparr>apiRole = ApiSystem,
           content = ''Be brief.'' @ nl @ nl @ ''Refer to this web search summary: ''
                       @ replicate n (CHR ''a'')\<rparr>,
         \<lparr>apiRole = ApiUser, content = ''hello''\<rparr>]
       \<in> set (snd (onSend (exampleHook (webConfig\<lparr>webLimit := L\<rparr>)) resolvedSearchEnv 1
                 (Some ''hello'') idleState))"
proof -
  have n: "0 < n" using assms by auto
  have wc: "webContentForLlm (webConfig\<lparr>webLimit := L\<rparr>) (replicate 10000 (CHR ''a'')) =
      replicate n (CHR ''a'')"
    using assms by (auto simp add: webContentForLlm_eq)
  show ?thesis
    using web_send_requests [of L "replicate 10000 (CHR ''a'')"]
    unfolding wc web_prompt [OF n] web_payload [OF n] resolvedSearchEnv_def [symmetric] .
qed

text \<open>
  C5. The fragments that a send gives to the model. What holds of the code: the hook
  hands a prompt on only with the request to the streaming transport, that is when the
  compute level is neither \<open>high\<close> nor \<open>medium\<close>. In the system prompt of that request the
  web fragment \<open>W\<close> is the search result of a web-mode send, whole when \<open>webLimit\<close> is 128,
  cut to its first \<open>1000 * webLimit\<close> characters for any other non-zero limit, and to its
  first 1000 characters when the limit is unset or 0; when it is not empty it enters the
  prompt as \<open>Refer to this web search summary: \<close> followed by \<open>W\<close>. The page fragment
  \<open>P\<close> of a page-mode send follows the same rule with \<open>contextLimit\<close> and enters as
  \<open>Use the following page content for context: \<close> followed by \<open>P\<close>.
\<close>

theorem context_fragment_truncation:
  assumes cfg: "hookConfig h = Some config"
    and req: "Requested url msgs \<in> set (snd (onSend h env callId (Some msg) s))"
  shows "let W = (if webLimit config = Some 128 then searchResOf env config msg
                  else take (nat (1000 * (case webLimit config of None \<Rightarrow> 1
                                          | Some n \<Rightarrow> if n = 0 then 1 else n)))
                         (searchResOf env config msg));
             P = (if chatMode config = Some Page then
                    (if contextLimit config = Some 128 then currentPageContentOf env
                     else take (nat (1000 * (case contextLimit config of None \<Rightarrow> 1
                                             | Some n \<Rightarrow> if n = 0 then 1 else n)))
                            (currentPageContentOf env))
                  else '''')
         in msgs = messagesForApiPayload
              (trim (join (nl @ nl)
                 (filter (\<lambda>fragment. fragment \<noteq> [])
                    [personaOf config, userContextStatement config, noteContextString config,
                     (if chatMode config = Some Page \<and> P \<noteq> []
                      then ''Use the following page content for context: '' @ P else ''''),
                     (if chatMode config = Some Web \<and> W \<noteq> []
                      then ''Refer to this web search summary: '' @ W else ''''),
                     (if scrapedContentOf env msg = [] then []
                      else scrapedContextString (scrapedContentOf env msg))])))
              (messageForApi h msg)
          \<and> computeLevel config \<noteq> Some ''high'' \<and> computeLevel config \<noteq> Some ''medium''"
proof -
  have p: "msgs = messagesForApiPayload
                (systemContent config (pageFragmentOf env config)
                   (webContentForLlm config (searchResOf env config msg))
                   (scrapedContentOf env msg))
                (messageForApi h msg)
          \<and> computeLevel config \<noteq> Some ''high'' \<and> computeLevel config \<noteq> Some ''medium''"
    by (rule requested_payload [OF cfg req])
  show ?thesis
    using p
    unfolding Let_def systemContent_filter webContextString_def pageContextString_def
      webContentForLlm_eq pageFragmentOf_eq
    by simp
qed

theorem context_fragment_truncation_witness:
  "hookConfig (exampleHook webConfig) = Some webConfig
   \<and> webLimit webConfig = Some 5
   \<and> searchResOf resolvedSearchEnv webConfig ''hello'' = replicate 10000 (CHR ''a'')
   \<and> Requested ''http://localhost:11434/api/chat''
        [\<lparr>apiRole = ApiSystem,
           content = ''Be brief.'' @ nl @ nl @ ''Refer to this web search summary: ''
                       @ replicate 5000 (CHR ''a'')\<rparr>,
         \<lparr>apiRole = ApiUser, content = ''hello''\<rparr>]
       \<in> set (snd (onSend (exampleHook webConfig) resolvedSearchEnv 1 (Some ''hello'') idleState))
   \<and> computeLevel webConfig \<noteq> Some ''high'' \<and> computeLevel webConfig \<noteq> Some ''medium''"
proof -
  have cfg: "hookConfig (exampleHook webConfig) = Some webConfig" by (simp add: exampleHook_def)
  have lim: "webLimit webConfig = Some 5" by (simp add: webConfig_def exampleConfig_def)
  have res: "searchResOf resolvedSearchEnv webConfig ''hello'' = replicate 10000 (CHR ''a'')"
    by (simp add: searchResOf_def resolvedSearchEnv_def webConfig_def)
  have req: "Requested ''http://localhost:11434/api/chat''
        [\<lparr>apiRole = ApiSystem,
           content = ''Be brief.'' @ nl @ nl @ ''Refer to this web search summary: ''
                       @ replicate 5000 (CHR ''a'')\<rparr>,
         \<lparr>apiRole = ApiUser, content = ''hello''\<rparr>]
       \<in> set (snd (onSend (exampleHook webConfig) resolvedSearchEnv 1 (Some ''hello'') idleState))"
    using web_send_requests_long [of "Some 5" 5000] unfolding webConfig_limit by simp
  have lv: "computeLevel webConfig \<noteq> Some ''high'' \<and> computeLevel webConfig \<noteq> Some ''medium''"
    using context_fragment_truncation [OF cfg req] by (simp add: Let_def)
  show ?thesis
    using cfg lim res req lv by blast
qed

text \<open>
  The claim as written fails for a limit of 0: of a search result of 10,000 characters
  the model is given 1000, not none.
\<close>

theorem zero_limit_defaults_to_one_thousand:
  "webLimit zeroLimitConfig = Some 0
   \<and> searchResOf resolvedSearchEnv zeroLimitConfig ''hello'' = replicate 10000 (CHR ''a'')
   \<and> Requested ''http://localhost:11434/api/chat''
        [\<lparr>apiRole = ApiSystem,
           content = ''Be brief.'' @ nl @ nl @ ''Refer to this web search summary: ''
                       @ replicate 1000 (CHR ''a'')\<rparr>,
         \<lparr>apiRole = ApiUser, content = ''hello''\<rparr>]
       \<in> set (snd (onSend (exampleHook zeroLimitConfig) resolvedSearchEnv 1 (Some ''hello'')
                 idleState))"
proof -
  have lim: "webLimit zeroLimitConfig = Some 0" by (simp add: zeroLimitConfig_def)
  have res: "searchResOf resolvedSearchEnv zeroLimitConfig ''hello'' = replicate 10000 (CHR ''a'')"
    by (simp add: searchResOf_def resolvedSearchEnv_def zeroLimitConfig_def webConfig_def)
  have req: "Requested ''http://localhost:11434/api/chat''
        [\<lparr>apiRole = ApiSystem,
           content = ''Be brief.'' @ nl @ nl @ ''Refer to this web search summary: ''
                       @ replicate 1000 (CHR ''a'')\<rparr>,
         \<lparr>apiRole = ApiUser, content = ''hello''\<rparr>]
       \<in> set (snd (onSend (exampleHook zeroLimitConfig) resolvedSearchEnv 1 (Some ''hello'')
                 idleState))"
    using web_send_requests_long [of "Some 0" 1000] unfolding zeroLimitConfig_def by simp
  show ?thesis
    using lim res req by blast
qed

text \<open>
  C6. The system prompt that a send hands to the streaming transport. What holds of the
  code: it is made of the non-empty fragments among persona, user profile statement,
  note context, page context, web context and scraped-URL context, in this order,
  joined by blank lines, and then trimmed of the white space at its two ends; it is sent
  as the system message when it is not blank, ahead of the history and the message.
\<close>

theorem system_prompt_fragment_order:
  assumes cfg: "hookConfig h = Some config"
    and req: "Requested url msgs \<in> set (snd (onSend h env callId (Some msg) s))"
  shows "msgs = messagesForApiPayload
           (trim (join (nl @ nl)
              (filter (\<lambda>fragment. fragment \<noteq> [])
                 [personaOf config, userContextStatement config, noteContextString config,
                  pageContextString config (pageFragmentOf env config),
                  webContextString config (webContentForLlm config (searchResOf env config msg)),
                  (if scrapedContentOf env msg = [] then []
                   else scrapedContextString (scrapedContentOf env msg))])))
           (messageForApi h msg)"
  using requested_payload [OF cfg req] unfolding systemContent_filter by simp

theorem system_prompt_fragment_order_witness:
  "hookConfig (exampleHook noteWebConfig) = Some noteWebConfig
   \<and> scrapedContentOf rainSearchEnv urlMessage = ''Content from [http://a.b/c]:'' @ nl @ ''page text''
   \<and> Requested ''http://localhost:11434/api/chat''
        [\<lparr>apiRole = ApiSystem,
           content = ''Be brief.'' @ nl @ nl @ ''Refer to this note for context: buy milk''
                       @ nl @ nl @ ''Refer to this web search summary: rain tomorrow''
                       @ nl @ nl @ scrapedContextString
                           (''Content from [http://a.b/c]:'' @ nl @ ''page text'')\<rparr>,
         \<lparr>apiRole = ApiUser, content = urlMessage\<rparr>]
       \<in> set (snd (onSend (exampleHook noteWebConfig) rainSearchEnv 1 (Some urlMessage) idleState))
   \<and> [\<lparr>apiRole = ApiSystem,
           content = ''Be brief.'' @ nl @ nl @ ''Refer to this note for context: buy milk''
                       @ nl @ nl @ ''Refer to this web search summary: rain tomorrow''
                       @ nl @ nl @ scrapedContextString
                           (''Content from [http://a.b/c]:'' @ nl @ ''page text'')\<rparr>,
         \<lparr>apiRole = ApiUser, content = urlMessage\<rparr>]
       = messagesForApiPayload
           (trim (join (nl @ nl)
              (filter (\<lambda>fragment. fragment \<noteq> [])
                 [personaOf noteWebConfig, userContextStatement noteWebConfig,
                  noteContextString noteWebConfig,
                  pageContextString noteWebConfig (pageFragmentOf rainSearchEnv noteWebConfig),
                  webContextString noteWebConfig
                    (webContentForLlm noteWebConfig
                       (searchResOf rainSearchEnv noteWebConfig urlMessage)),
                  (if scrapedContentOf rainSearchEnv urlMessage = [] then []
                   else scrapedContextString (scrapedContentOf rainSearchEnv urlMessage))])))
           (messageForApi (exampleHook noteWebConfig) urlMessage)"
proof -
  have cfg: "hookConfig (exampleHook noteWebConfig) = Some noteWebConfig"
    by (simp add: exampleHook_def)
  have sc: "scrapedContentOf rainSearchEnv urlMessage =
      ''Content from [http://a.b/c]:'' @ nl @ ''page text''"
    by code_simp
  have req: "Requested ''http://localhost:11434/api/chat''
        [\<lparr>apiRole = ApiSystem,
           content = ''Be brief.'' @ nl @ nl @ ''Refer to this note for context: buy milk''
                       @ nl @ nl @ ''Refer to this web search summary: rain tomorrow''
                       @ nl @ nl @ scrapedContextString
                           (''Content from [http://a.b/c]:'' @ nl @ ''page text'')\<rparr>,
         \<lparr>apiRole = ApiUser, content = urlMessage\<rparr>]
       \<in> set (snd (onSend (exampleHook noteWebConfig) rainSearchEnv 1 (Some urlMessage) idleState))"
    by code_simp
  show ?thesis
    by (intro conjI cfg sc req system_prompt_fragment_order [OF cfg req])
qed

text \<open>
  The claim as written fails for a persona that ends in a line break: the only fragment
  is the persona, and the system prompt of the request is the persona without its last
  character.
\<close>

theorem system_prompt_is_trimmed:
  "personaOf newlinePersonaConfig = ''Be brief.'' @ nl
   \<and> systemPromptParts newlinePersonaConfig '''' '''' '''' = [''Be brief.'' @ nl]
   \<and> snd (onSend (exampleHook newlinePersonaConfig) exampleEnv 1 (Some ''hello'') idleState) =
       [Requested ''http://localhost:11434/api/chat''
          [\<lparr>apiRole = ApiSystem, content = ''Be brief.''\<rparr>,
           \<lparr>apiRole = ApiUser, content = ''hello''\<rparr>],
        Awaited FetchStream
          [userTurn exampleEnv ''hello'', assistantTurnPlaceholder exampleEnv]]"
  by code_simp
end
